theory Spec2Isabelle
  imports Main "HOL-Library.Word"
begin

section \<open>Python values\<close>

text \<open>
  A Python \<open>str\<close> is a sequence of Unicode code points and a \<open>bytes\<close> object a sequence
  of octets.  The values that reach \<open>sanitize_value\<close>, \<open>recursive_sanitize\<close> and
  \<open>json.dumps\<close> are \<open>None\<close>, booleans, integers, strings, byte strings, lists, tuples
  and dictionaries (in insertion order).  Floating point numbers and the objects of
  third-party libraries are not part of this value universe.
\<close>

type_synonym byte = "8 word"
type_synonym ustr = "nat list"

definition lit :: "string \<Rightarrow> ustr" where
  "lit s = map of_char s"

datatype pyval =
    PNone
  | PBool bool
  | PInt int
  | PStr ustr
  | PBytes "byte list"
  | PList "pyval list"
  | PTuple "pyval list"
  | PDict "(pyval \<times> pyval) list"

datatype error =
    ValueError ustr
  | TypeError ustr
  | KeyError ustr
  | FileNotFoundError ustr
  | UnicodeEncodeError
  | HTTPError nat
  | LibraryError ustr

section \<open>The library the program calls\<close>

text \<open>
  \<open>pandas\<close>, \<open>requests\<close>, \<open>openpyxl\<close> and the Unicode tables behind \<open>str()\<close> and
  \<open>str.lower()\<close> are not code of the repository.  The program is modelled relative to
  a record of these operations; every theorem holds for each such record.  A table is
  its column labels and its rows, a row holding one cell per column.
\<close>

record dataframe =
  columns :: "ustr list"
  rows :: "pyval list list"

record response =
  status_code :: nat
  content :: "byte list"

text \<open>
  A library routine that writes a file either completes, or raises and leaves the file
  as it was (\<open>None\<close>) or with some content of its own (\<open>Some\<close>).
\<close>

datatype write_result = Wrote "byte list" | WriteFailed error "byte list option"

record lib =
  py_str :: "pyval \<Rightarrow> ustr"
  py_lower :: "ustr \<Rightarrow> ustr"
  read_csv :: "byte list \<Rightarrow> error + dataframe"
  read_csv_latin1 :: "byte list \<Rightarrow> error + dataframe"
  read_parquet :: "byte list \<Rightarrow> error + dataframe"
  to_parquet :: "dataframe \<Rightarrow> write_result"
  to_csv :: "dataframe \<Rightarrow> write_result"
  df_preview :: "dataframe \<Rightarrow> ustr"
  requests_get :: "ustr \<Rightarrow> error + response"
  ws_append :: "pyval list \<Rightarrow> error option"
  wb_save :: "pyval list list \<Rightarrow> write_result"

section \<open>Decoding UTF-8 with replacement\<close>

text \<open>
  \<open>val.decode("utf-8", errors="replace")\<close>: a well-formed sequence gives its code point;
  an ill-formed one gives U+FFFD for its longest prefix that starts a well-formed
  sequence (one byte when there is none), and decoding resumes after that prefix.  The
  call never raises, so the \<open>except\<close> branch of \<open>sanitize_value\<close> is never taken.
\<close>

definition is_cont :: "byte \<Rightarrow> bool" where
  "is_cont c = (0x80 \<le> c \<and> c \<le> 0xBF)"

definition second3_ok :: "byte \<Rightarrow> byte \<Rightarrow> bool" where
  "second3_ok b c =
     (if b = 0xE0 then 0xA0 \<le> c \<and> c \<le> 0xBF
      else if b = 0xED then 0x80 \<le> c \<and> c \<le> 0x9F
      else is_cont c)"

definition second4_ok :: "byte \<Rightarrow> byte \<Rightarrow> bool" where
  "second4_ok b c =
     (if b = 0xF0 then 0x90 \<le> c \<and> c \<le> 0xBF
      else if b = 0xF4 then 0x80 \<le> c \<and> c \<le> 0x8F
      else is_cont c)"

definition cp2 :: "byte \<Rightarrow> byte \<Rightarrow> nat" where
  "cp2 b c1 = (unat b - 0xC0) * 64 + (unat c1 - 0x80)"

definition cp3 :: "byte \<Rightarrow> byte \<Rightarrow> byte \<Rightarrow> nat" where
  "cp3 b c1 c2 = (unat b - 0xE0) * 4096 + (unat c1 - 0x80) * 64 + (unat c2 - 0x80)"

definition cp4 :: "byte \<Rightarrow> byte \<Rightarrow> byte \<Rightarrow> byte \<Rightarrow> nat" where
  "cp4 b c1 c2 c3 =
     (unat b - 0xF0) * 262144 + (unat c1 - 0x80) * 4096 + (unat c2 - 0x80) * 64
       + (unat c3 - 0x80)"

text \<open>
  Each of the following returns the code point decoded at a lead byte \<open>b\<close> and the
  number of bytes consumed after \<open>b\<close>.
\<close>

definition seq2 :: "byte \<Rightarrow> byte list \<Rightarrow> nat \<times> nat" where
  "seq2 b bs =
     (case bs of
        [] \<Rightarrow> (0xFFFD, 0)
      | c1 # _ \<Rightarrow> if is_cont c1 then (cp2 b c1, 1) else (0xFFFD, 0))"

definition seq3 :: "byte \<Rightarrow> byte list \<Rightarrow> nat \<times> nat" where
  "seq3 b bs =
     (case bs of
        [] \<Rightarrow> (0xFFFD, 0)
      | c1 # r1 \<Rightarrow>
          if \<not> second3_ok b c1 then (0xFFFD, 0)
          else (case r1 of
                  [] \<Rightarrow> (0xFFFD, 1)
                | c2 # _ \<Rightarrow> if is_cont c2 then (cp3 b c1 c2, 2) else (0xFFFD, 1)))"

definition seq4 :: "byte \<Rightarrow> byte list \<Rightarrow> nat \<times> nat" where
  "seq4 b bs =
     (case bs of
        [] \<Rightarrow> (0xFFFD, 0)
      | c1 # r1 \<Rightarrow>
          if \<not> second4_ok b c1 then (0xFFFD, 0)
          else (case r1 of
                  [] \<Rightarrow> (0xFFFD, 1)
                | c2 # r2 \<Rightarrow>
                    if \<not> is_cont c2 then (0xFFFD, 1)
                    else (case r2 of
                            [] \<Rightarrow> (0xFFFD, 2)
                          | c3 # _ \<Rightarrow>
                              if is_cont c3 then (cp4 b c1 c2 c3, 3) else (0xFFFD, 2))))"

definition utf8_step :: "byte \<Rightarrow> byte list \<Rightarrow> nat \<times> nat" where
  "utf8_step b bs =
     (if b < 0x80 then (unat b, 0)
      else if 0xC2 \<le> b \<and> b \<le> 0xDF then seq2 b bs
      else if 0xE0 \<le> b \<and> b \<le> 0xEF then seq3 b bs
      else if 0xF0 \<le> b \<and> b \<le> 0xF4 then seq4 b bs
      else (0xFFFD, 0))"

fun utf8_decode_replace :: "byte list \<Rightarrow> ustr" where
  "utf8_decode_replace [] = []"
| "utf8_decode_replace (b # bs) =
     (case utf8_step b bs of (c, n) \<Rightarrow> c # utf8_decode_replace (drop n bs))"

section \<open>The sanitizer\<close>

text \<open>
  The character class \<open>[\x00-\x08\x0B\x0C\x0E-\x1F]\<close> of the three \<open>re.sub\<close> calls,
  and the substitution of the empty string for each match.
\<close>

definition illegal_char :: "nat \<Rightarrow> bool" where
  "illegal_char c = (c \<le> 0x08 \<or> c = 0x0B \<or> c = 0x0C \<or> (0x0E \<le> c \<and> c \<le> 0x1F))"

definition strip_illegal :: "ustr \<Rightarrow> ustr" where
  "strip_illegal s = filter (\<lambda>c. \<not> illegal_char c) s"

fun sanitize_value :: "lib \<Rightarrow> pyval \<Rightarrow> pyval" where
  "sanitize_value L (PBytes b) = PStr (strip_illegal (utf8_decode_replace b))"
| "sanitize_value L (PStr s) = PStr (strip_illegal s)"
| "sanitize_value L (PDict d) = PStr (strip_illegal (py_str L (PDict d)))"
| "sanitize_value L (PList xs) = PStr (strip_illegal (py_str L (PList xs)))"
| "sanitize_value L v = v"


section \<open>Strings, dictionaries and results\<close>

text \<open>
  \<open>s.split(sep)\<close> for a separator of one character: the pieces between the
  separators, never an empty list (the last case of the inner \<open>case\<close> does not arise).
\<close>

fun split_on :: "nat \<Rightarrow> ustr \<Rightarrow> ustr list" where
  "split_on sep [] = [[]]"
| "split_on sep (c # cs) =
     (if c = sep then [] # split_on sep cs
      else (case split_on sep cs of
              p # ps \<Rightarrow> (c # p) # ps
            | [] \<Rightarrow> [[c]]))"

fun join :: "ustr \<Rightarrow> ustr list \<Rightarrow> ustr" where
  "join sep [] = []"
| "join sep [p] = p"
| "join sep (p # q # ps) = p @ sep @ join sep (q # ps)"

text \<open>\<open>d[k] = v\<close> on a dictionary kept in insertion order.\<close>

fun dict_set :: "('k \<times> 'v) list \<Rightarrow> 'k \<Rightarrow> 'v \<Rightarrow> ('k \<times> 'v) list" where
  "dict_set [] k v = [(k, v)]"
| "dict_set ((k', v') # d) k v =
     (if k' = k then (k, v) # d else (k', v') # dict_set d k v)"

definition dict_of_pairs :: "('k \<times> 'v) list \<Rightarrow> ('k \<times> 'v) list" where
  "dict_of_pairs kvs = foldl (\<lambda>d (k, v). dict_set d k v) [] kvs"

text \<open>The results of a sequence of evaluations, up to the first that raises.\<close>

fun collect :: "(error + 'a) list \<Rightarrow> error + 'a list" where
  "collect [] = Inr []"
| "collect (x # xs) =
     (case x of
        Inl e \<Rightarrow> Inl e
      | Inr y \<Rightarrow> (case collect xs of Inl e \<Rightarrow> Inl e | Inr ys \<Rightarrow> Inr (y # ys)))"

section \<open>\<open>json.dumps\<close>\<close>

text \<open>
  The string encoders of Python's \<open>json\<close> module.  Both replace backslash, the double
  quote and the characters below U+0020; with \<open>ensure_ascii\<close> (the default, used by the
  CSV to JSONL branch) every character outside \<open>' '..'~'\<close> is replaced as well, a
  character above U+FFFF by the escapes of its two UTF-16 surrogates.  In what follows
  0x5C is the backslash, 0x22 the double quote, 0x75 the letter \<open>u\<close>, and 0x62, 0x66, 0x6E,
  0x72, 0x74 the letters \<open>b\<close>, \<open>f\<close>, \<open>n\<close>, \<open>r\<close>, \<open>t\<close>; 0x5B and 0x5D are the brackets, 0x7B and
  0x7D the braces, 0x2C the comma, 0x3A the colon and 0x2D the minus sign.
\<close>

definition hexdigit :: "nat \<Rightarrow> nat" where
  "hexdigit d = (if d < 10 then 0x30 + d else 0x57 + d)"

definition hex4 :: "nat \<Rightarrow> ustr" where
  "hex4 n = [hexdigit (n div 4096 mod 16), hexdigit (n div 256 mod 16),
             hexdigit (n div 16 mod 16), hexdigit (n mod 16)]"

definition u_escape :: "nat \<Rightarrow> ustr" where
  "u_escape n = [0x5C, 0x75] @ hex4 n"

definition esc_short :: "nat \<Rightarrow> ustr option" where
  "esc_short c =
     (if c = 0x5C then Some [0x5C, 0x5C]
      else if c = 0x22 then Some [0x5C, 0x22]
      else if c = 0x08 then Some [0x5C, 0x62]
      else if c = 0x0C then Some [0x5C, 0x66]
      else if c = 0x0A then Some [0x5C, 0x6E]
      else if c = 0x0D then Some [0x5C, 0x72]
      else if c = 0x09 then Some [0x5C, 0x74]
      else None)"

definition escape_char :: "bool \<Rightarrow> nat \<Rightarrow> ustr" where
  "escape_char ensure_ascii c =
     (case esc_short c of
        Some e \<Rightarrow> e
      | None \<Rightarrow>
          if c < 0x20 then u_escape c
          else if \<not> ensure_ascii \<or> c \<le> 0x7E then [c]
          else if c < 0x10000 then u_escape c
          else u_escape (0xD800 + (c - 0x10000) div 1024 mod 1024)
                 @ u_escape (0xDC00 + (c - 0x10000) mod 1024))"

definition encode_basestring :: "bool \<Rightarrow> ustr \<Rightarrow> ustr" where
  "encode_basestring ensure_ascii s = [0x22] @ concat (map (escape_char ensure_ascii) s) @ [0x22]"

fun digits :: "nat \<Rightarrow> ustr" where
  "digits n = (if n < 10 then [0x30 + n] else digits (n div 10) @ [0x30 + n mod 10])"

declare digits.simps [simp del]

definition str_int :: "int \<Rightarrow> ustr" where
  "str_int i = (if i < 0 then 0x2D # digits (nat (- i)) else digits (nat i))"

text \<open>
  A dictionary key must be a string, a number, a boolean or \<open>None\<close>; the latter three are
  written as the strings of their JSON text.  Any other key raises \<open>TypeError\<close>.
\<close>

fun json_key :: "bool \<Rightarrow> pyval \<Rightarrow> error + ustr" where
  "json_key a (PStr s) = Inr (encode_basestring a s)"
| "json_key a PNone = Inr (encode_basestring a (lit ''null''))"
| "json_key a (PBool b) = Inr (encode_basestring a (if b then lit ''true'' else lit ''false''))"
| "json_key a (PInt i) = Inr (encode_basestring a (str_int i))"
| "json_key a k = Inl (TypeError (lit ''keys must be str, int, float, bool or None''))"

fun json_dumps :: "bool \<Rightarrow> pyval \<Rightarrow> error + ustr" where
  "json_dumps a PNone = Inr (lit ''null'')"
| "json_dumps a (PBool b) = Inr (if b then lit ''true'' else lit ''false'')"
| "json_dumps a (PInt i) = Inr (str_int i)"
| "json_dumps a (PStr s) = Inr (encode_basestring a s)"
| "json_dumps a (PBytes b) =
     Inl (TypeError (lit ''Object of type bytes is not JSON serializable''))"
| "json_dumps a (PList xs) =
     (case collect (map (json_dumps a) xs) of
        Inl e \<Rightarrow> Inl e
      | Inr ts \<Rightarrow> Inr ([0x5B] @ join (lit '', '') ts @ [0x5D]))"
| "json_dumps a (PTuple xs) =
     (case collect (map (json_dumps a) xs) of
        Inl e \<Rightarrow> Inl e
      | Inr ts \<Rightarrow> Inr ([0x5B] @ join (lit '', '') ts @ [0x5D]))"
| "json_dumps a (PDict kvs) =
     (case collect (map (\<lambda>(k, v).
               case json_key a k of
                 Inl e \<Rightarrow> Inl e
               | Inr kt \<Rightarrow>
                   (case json_dumps a v of
                      Inl e \<Rightarrow> Inl e
                    | Inr vt \<Rightarrow> Inr (kt @ lit '': '' @ vt))) kvs) of
        Inl e \<Rightarrow> Inl e
      | Inr ts \<Rightarrow> Inr ([0x7B] @ join (lit '', '') ts @ [0x7D]))"

section \<open>Text files\<close>

text \<open>
  A file opened with \<open>encoding='utf-8'\<close> stores the UTF-8 encoding of what is written;
  \<open>f.write\<close> raises \<open>UnicodeEncodeError\<close> on a surrogate code point.
\<close>

definition encode_char :: "nat \<Rightarrow> error + byte list" where
  "encode_char c =
     (if c < 0x80 then Inr [of_nat c]
      else if c < 0x800 then Inr [of_nat (0xC0 + c div 64), of_nat (0x80 + c mod 64)]
      else if 0xD800 \<le> c \<and> c \<le> 0xDFFF then Inl UnicodeEncodeError
      else if c < 0x10000 then
        Inr [of_nat (0xE0 + c div 4096), of_nat (0x80 + c div 64 mod 64),
             of_nat (0x80 + c mod 64)]
      else
        Inr [of_nat (0xF0 + c div 262144), of_nat (0x80 + c div 4096 mod 64),
             of_nat (0x80 + c div 64 mod 64), of_nat (0x80 + c mod 64)])"

definition utf8_encode :: "ustr \<Rightarrow> error + byte list" where
  "utf8_encode s =
     (case collect (map encode_char s) of Inl e \<Rightarrow> Inl e | Inr bss \<Rightarrow> Inr (concat bss))"

text \<open>
  The loop \<open>for r in records: f.write(ser(r) + "\n")\<close> inside \<open>with open(..., "w")\<close>:
  the bytes in the file when the loop ends, and the exception that ended it, if any.
\<close>

fun write_lines ::
  "(pyval \<Rightarrow> error + ustr) \<Rightarrow> pyval list \<Rightarrow> byte list \<Rightarrow> error option \<times> byte list"
where
  "write_lines ser [] acc = (None, acc)"
| "write_lines ser (r # rs) acc =
     (case ser r of
        Inl e \<Rightarrow> (Some e, acc)
      | Inr t \<Rightarrow>
          (case utf8_encode (t @ [0x0A]) of
             Inl e \<Rightarrow> (Some e, acc)
           | Inr bs \<Rightarrow> write_lines ser rs (acc @ bs)))"

section \<open>The converter\<close>

text \<open>
  What a request can observe and change: the files on disk and the HTTP requests made
  so far.  The uploaded file is an object with \<open>read()\<close> and \<open>name\<close>, or a path.
\<close>

record world =
  files :: "ustr \<rightharpoonup> byte list"
  http_log :: "ustr list"

datatype input_file = FileObj ustr "byte list" | FilePath ustr

definition put_file :: "world \<Rightarrow> ustr \<Rightarrow> byte list \<Rightarrow> world" where
  "put_file w name bs = w\<lparr>files := (files w)(name \<mapsto> bs)\<rparr>"

definition leave_file :: "world \<Rightarrow> ustr \<Rightarrow> byte list option \<Rightarrow> world" where
  "leave_file w name part = (case part of None \<Rightarrow> w | Some bs \<Rightarrow> put_file w name bs)"

text \<open>\<open>file_name.lower().split('.')[-1]\<close>\<close>

definition file_extension :: "lib \<Rightarrow> ustr \<Rightarrow> ustr" where
  "file_extension L file_name = last (split_on 0x2E (py_lower L file_name))"

text \<open>
  Lines 57 to 65: \<open>file_bytes\<close>, \<open>file_name\<close> and \<open>file_extension\<close>, all absent when no
  file is given.  Opening a path that does not exist raises.
\<close>

definition read_input ::
  "lib \<Rightarrow> world \<Rightarrow> input_file option \<Rightarrow> error + (byte list \<times> ustr \<times> ustr) option"
where
  "read_input L w input_file =
     (case input_file of
        None \<Rightarrow> Inr None
      | Some (FileObj name file_bytes) \<Rightarrow> Inr (Some (file_bytes, name, file_extension L name))
      | Some (FilePath file_name) \<Rightarrow>
          (case files w file_name of
             None \<Rightarrow> Inl (FileNotFoundError file_name)
           | Some file_bytes \<Rightarrow>
               Inr (Some (file_bytes, file_name, file_extension L file_name))))"

definition info_message :: "lib \<Rightarrow> ustr option \<Rightarrow> ustr \<Rightarrow> dataframe \<Rightarrow> ustr" where
  "info_message L file_name converted_format df =
     lit ''Input file: '' @ (case file_name of Some n \<Rightarrow> n | None \<Rightarrow> lit ''N/A'') @ [0x0A]
     @ lit ''Converted file format: '' @ converted_format @ [0x0A, 0x0A]
     @ lit ''Preview (Top 10 Rows):'' @ [0x0A] @ df_preview L df @ [0x0A, 0x0A]
     @ lit ''Community: https://discord.gg/openfreeai '' @ [0x1F680]"

text \<open>The result of a library writer, as the outcome of the request.\<close>

definition finish_write ::
  "lib \<Rightarrow> world \<Rightarrow> ustr \<Rightarrow> write_result \<Rightarrow> ustr option \<Rightarrow> ustr \<Rightarrow> dataframe
     \<Rightarrow> (error + ustr \<times> ustr) \<times> world"
where
  "finish_write L w output_file res file_name converted_format df =
     (case res of
        WriteFailed e part \<Rightarrow> (Inl e, leave_file w output_file part)
      | Wrote bs \<Rightarrow>
          (Inr (output_file, info_message L file_name converted_format df),
           put_file w output_file bs))"

definition csv_to_parquet ::
  "lib \<Rightarrow> world \<Rightarrow> (byte list \<times> ustr \<times> ustr) option \<Rightarrow> (error + ustr \<times> ustr) \<times> world"
where
  "csv_to_parquet L w src =
     (case src of
        None \<Rightarrow>
          (Inl (ValueError (lit ''For CSV to Parquet conversion, please upload a CSV file. ''
                  @ [0x1F4C4])), w)
      | Some (file_bytes, file_name, ext) \<Rightarrow>
          if ext \<noteq> lit ''csv'' then
            (Inl (ValueError (lit ''For CSV to Parquet conversion, please upload a CSV file. ''
                    @ [0x1F4C4])), w)
          else
            (case read_csv L file_bytes of
               Inl e \<Rightarrow> (Inl e, w)
             | Inr df \<Rightarrow>
                 finish_write L w (lit ''output.parquet'') (to_parquet L df)
                   (Some file_name) (lit ''Parquet'') df))"

definition parquet_to_csv ::
  "lib \<Rightarrow> world \<Rightarrow> (byte list \<times> ustr \<times> ustr) option \<Rightarrow> (error + ustr \<times> ustr) \<times> world"
where
  "parquet_to_csv L w src =
     (case src of
        None \<Rightarrow>
          (Inl (ValueError
                  (lit ''For Parquet to CSV conversion, please upload a Parquet file. ''
                    @ [0x1F4C4])), w)
      | Some (file_bytes, file_name, ext) \<Rightarrow>
          if ext \<noteq> lit ''parquet'' then
            (Inl (ValueError
                    (lit ''For Parquet to CSV conversion, please upload a Parquet file. ''
                      @ [0x1F4C4])), w)
          else
            (case read_parquet L file_bytes of
               Inl e \<Rightarrow> (Inl e, w)
             | Inr df \<Rightarrow>
                 finish_write L w (lit ''output.csv'') (to_csv L df)
                   (Some file_name) (lit ''CSV'') df))"

text \<open>
  Lines 94 to 102.  \<open>row[column]\<close> looks the label up in the row; the inner loop keeps
  \<open>file_name_val\<close> and \<open>data\<close>.
\<close>

fun column_loop ::
  "ustr list \<Rightarrow> (ustr \<rightharpoonup> pyval) \<Rightarrow> pyval \<Rightarrow> (pyval \<times> pyval) list
     \<Rightarrow> error + pyval \<times> (pyval \<times> pyval) list"
where
  "column_loop [] row file_name_val data = Inr (file_name_val, data)"
| "column_loop (column # cs) row file_name_val data =
     (case row column of
        None \<Rightarrow> Inl (KeyError column)
      | Some v \<Rightarrow>
          column_loop cs row (if column = lit ''file_name'' then v else file_name_val)
            (dict_set data (PStr column) v))"

definition row_data :: "ustr list \<Rightarrow> pyval list \<Rightarrow> error + pyval" where
  "row_data cols r =
     (case column_loop cols (map_of (zip cols r)) PNone [] of
        Inl e \<Rightarrow> Inl e
      | Inr (file_name_val, data) \<Rightarrow>
          (case json_dumps True (PDict data) of
             Inl e \<Rightarrow> Inl e
           | Inr ground_truth \<Rightarrow>
               Inr (PDict [(PStr (lit ''file_name''), file_name_val),
                           (PStr (lit ''ground_truth''), PStr ground_truth)])))"

text \<open>
  An exception inside \<open>with open(output_file, 'w')\<close> leaves the file with what had been
  written before it.
\<close>

definition finish_lines ::
  "lib \<Rightarrow> world \<Rightarrow> ustr \<Rightarrow> error option \<times> byte list \<Rightarrow> ustr option \<Rightarrow> dataframe
     \<Rightarrow> (error + ustr \<times> ustr) \<times> world"
where
  "finish_lines L w output_file res file_name df =
     (case res of
        (Some e, part) \<Rightarrow> (Inl e, put_file w output_file part)
      | (None, bs) \<Rightarrow>
          (Inr (output_file, info_message L file_name (lit ''JSONL'') df),
           put_file w output_file bs))"

definition csv_to_jsonl ::
  "lib \<Rightarrow> world \<Rightarrow> (byte list \<times> ustr \<times> ustr) option \<Rightarrow> (error + ustr \<times> ustr) \<times> world"
where
  "csv_to_jsonl L w src =
     (case src of
        None \<Rightarrow>
          (Inl (ValueError (lit ''For CSV to JSONL conversion, please upload a CSV file. ''
                  @ [0x1F4C4])), w)
      | Some (file_bytes, file_name, ext) \<Rightarrow>
          if ext \<noteq> lit ''csv'' then
            (Inl (ValueError (lit ''For CSV to JSONL conversion, please upload a CSV file. ''
                    @ [0x1F4C4])), w)
          else
            (case read_csv_latin1 L file_bytes of
               Inl e \<Rightarrow> (Inl e, w)
             | Inr df \<Rightarrow>
                 (case collect (map (row_data (columns df)) (rows df)) of
                    Inl e \<Rightarrow> (Inl e, w)
                  | Inr total_data \<Rightarrow>
                      finish_lines L w (lit ''metadata.jsonl'')
                        (write_lines (json_dumps True) total_data [])
                        (Some file_name) df)))"

text \<open>
  The table of the two Parquet-source branches (lines 111 to 119 and 142 to 150, which
  differ in the message only): from the uploaded file when there is one, else from a
  non-empty URL.  \<open>raise_for_status\<close> raises for the codes 400 to 599.
\<close>

definition raise_for_status :: "response \<Rightarrow> error option" where
  "raise_for_status r =
     (if 400 \<le> status_code r \<and> status_code r < 600 then Some (HTTPError (status_code r))
      else None)"

definition parquet_source ::
  "lib \<Rightarrow> world \<Rightarrow> (byte list \<times> ustr \<times> ustr) option \<Rightarrow> ustr option \<Rightarrow> ustr
     \<Rightarrow> (error + dataframe \<times> ustr) \<times> world"
where
  "parquet_source L w src parquet_url msg =
     (case src of
        Some (file_bytes, file_name, ext) \<Rightarrow>
          (case read_parquet L file_bytes of
             Inl e \<Rightarrow> (Inl e, w)
           | Inr df \<Rightarrow> (Inr (df, file_name), w))
      | None \<Rightarrow>
          (case parquet_url of
             None \<Rightarrow> (Inl (ValueError msg), w)
           | Some url \<Rightarrow>
               if url = [] then (Inl (ValueError msg), w)
               else
                 (case requests_get L url of
                    Inl e \<Rightarrow> (Inl e, w\<lparr>http_log := http_log w @ [url]\<rparr>)
                  | Inr r \<Rightarrow>
                      (case raise_for_status r of
                         Some e \<Rightarrow> (Inl e, w\<lparr>http_log := http_log w @ [url]\<rparr>)
                       | None \<Rightarrow>
                           (case read_parquet L (content r) of
                              Inl e \<Rightarrow> (Inl e, w\<lparr>http_log := http_log w @ [url]\<rparr>)
                            | Inr df \<Rightarrow>
                                (Inr (df, lit ''from_url.parquet''),
                                 w\<lparr>http_log := http_log w @ [url]\<rparr>))))))"

fun recursive_sanitize :: "pyval \<Rightarrow> pyval" where
  "recursive_sanitize (PBytes b) = PStr (utf8_decode_replace b)"
| "recursive_sanitize (PDict kvs) = PDict (map (\<lambda>(k, v). (k, recursive_sanitize v)) kvs)"
| "recursive_sanitize (PList xs) = PList (map recursive_sanitize xs)"
| "recursive_sanitize v = v"

text \<open>\<open>df.to_dict(orient="records")\<close>\<close>

definition to_records :: "dataframe \<Rightarrow> pyval list" where
  "to_records df = map (\<lambda>r. PDict (dict_of_pairs (zip (map PStr (columns df)) r))) (rows df)"

definition parquet_to_jsonl ::
  "lib \<Rightarrow> world \<Rightarrow> (byte list \<times> ustr \<times> ustr) option \<Rightarrow> ustr option
     \<Rightarrow> (error + ustr \<times> ustr) \<times> world"
where
  "parquet_to_jsonl L w src parquet_url =
     (case parquet_source L w src parquet_url
             (lit ''For Parquet to JSONL conversion, please upload a file or provide a URL. ''
                @ [0x1F310]) of
        (Inl e, w1) \<Rightarrow> (Inl e, w1)
      | (Inr (df, file_name), w1) \<Rightarrow>
          finish_lines L w1 (lit ''output.jsonl'')
            (write_lines (\<lambda>record. json_dumps False (recursive_sanitize record))
               (to_records df) [])
            (Some file_name) df)"

text \<open>
  Lines 153 to 159: the header and the sanitized rows are appended to the sheet, which
  is saved at the end.  \<open>ws.append\<close> raises on a cell the workbook cannot hold.
\<close>

fun append_rows :: "lib \<Rightarrow> pyval list list \<Rightarrow> error option" where
  "append_rows L [] = None"
| "append_rows L (r # rs) =
     (case ws_append L r of Some e \<Rightarrow> Some e | None \<Rightarrow> append_rows L rs)"

definition sheet_rows :: "lib \<Rightarrow> dataframe \<Rightarrow> pyval list list" where
  "sheet_rows L df = map PStr (columns df) # map (map (sanitize_value L)) (rows df)"

definition parquet_to_xls ::
  "lib \<Rightarrow> world \<Rightarrow> (byte list \<times> ustr \<times> ustr) option \<Rightarrow> ustr option
     \<Rightarrow> (error + ustr \<times> ustr) \<times> world"
where
  "parquet_to_xls L w src parquet_url =
     (case parquet_source L w src parquet_url
             (lit ''For Parquet to XLS conversion, please upload a file or provide a URL. ''
                @ [0x1F310]) of
        (Inl e, w1) \<Rightarrow> (Inl e, w1)
      | (Inr (df, file_name), w1) \<Rightarrow>
          (case append_rows L (sheet_rows L df) of
             Some e \<Rightarrow> (Inl e, w1)
           | None \<Rightarrow>
               finish_write L w1 (lit ''output.xlsx'') (wb_save L (sheet_rows L df))
                 (Some file_name) (lit ''XLS'') df))"

definition dataset_converter ::
  "lib \<Rightarrow> world \<Rightarrow> input_file option \<Rightarrow> ustr \<Rightarrow> ustr option
     \<Rightarrow> (error + ustr \<times> ustr) \<times> world"
where
  "dataset_converter L w input_file conversion_type parquet_url =
     (case read_input L w input_file of
        Inl e \<Rightarrow> (Inl e, w)
      | Inr src \<Rightarrow>
          if conversion_type = lit ''CSV to Parquet'' then csv_to_parquet L w src
          else if conversion_type = lit ''Parquet to CSV'' then parquet_to_csv L w src
          else if conversion_type = lit ''CSV to JSONL'' then csv_to_jsonl L w src
          else if conversion_type = lit ''Parquet to JSONL'' then
            parquet_to_jsonl L w src parquet_url
          else if conversion_type = lit ''Parquet to XLS'' then
            parquet_to_xls L w src parquet_url
          else
            (Inl (ValueError (lit ''Invalid conversion type selected. '' @ [0x26A0, 0xFE0F])),
             w))"

section \<open>Notions of the specification\<close>

text \<open>
  The output file that section 6 of the specification fixes for each conversion type.
\<close>

definition spec_output_file :: "ustr \<Rightarrow> ustr option" where
  "spec_output_file conversion_type =
     (if conversion_type = lit ''CSV to Parquet'' then Some (lit ''output.parquet'')
      else if conversion_type = lit ''Parquet to CSV'' then Some (lit ''output.csv'')
      else if conversion_type = lit ''CSV to JSONL'' then Some (lit ''metadata.jsonl'')
      else if conversion_type = lit ''Parquet to JSONL'' then Some (lit ''output.jsonl'')
      else if conversion_type = lit ''Parquet to XLS'' then Some (lit ''output.xlsx'')
      else None)"



section \<open>Reading JSON\<close>

text \<open>
  Reading JSON.  The claims speak of a line that \<open>parses as\<close> a JSON object, so the
  grammar of RFC 8259 is given as a reader: JSON values without fractions and
  exponents, white space between tokens, strings with the escapes of the grammar.  As in
  \<open>json.loads\<close>, the escape of a high surrogate followed by the escape of a low surrogate
  is read as the one character they encode.  The reader descends with a bound on the
  nesting and the number of elements, which \<open>json_loads\<close> sets from the length of the
  text.
\<close>

datatype json =
    JNull
  | JBool bool
  | JNumber int
  | JString ustr
  | JArray "json list"
  | JObject "(ustr \<times> json) list"

definition is_ws :: "nat \<Rightarrow> bool" where
  "is_ws c = (c = 0x20 \<or> c = 0x09 \<or> c = 0x0A \<or> c = 0x0D)"

definition skip_ws :: "ustr \<Rightarrow> ustr" where
  "skip_ws s = dropWhile is_ws s"

definition is_digit :: "nat \<Rightarrow> bool" where
  "is_digit c = (0x30 \<le> c \<and> c \<le> 0x39)"

definition hexval :: "nat \<Rightarrow> nat option" where
  "hexval c =
     (if 0x30 \<le> c \<and> c \<le> 0x39 then Some (c - 0x30)
      else if 0x61 \<le> c \<and> c \<le> 0x66 then Some (c - 0x57)
      else if 0x41 \<le> c \<and> c \<le> 0x46 then Some (c - 0x37)
      else None)"

definition parse_hex4 :: "ustr \<Rightarrow> nat option" where
  "parse_hex4 s =
     (case s of
        a # b # c # d # _ \<Rightarrow>
          (case (hexval a, hexval b, hexval c, hexval d) of
             (Some x, Some y, Some z, Some w) \<Rightarrow> Some (x * 4096 + y * 256 + z * 16 + w)
           | _ \<Rightarrow> None)
      | _ \<Rightarrow> None)"

definition unescape :: "nat \<Rightarrow> nat option" where
  "unescape e =
     (if e = 0x22 then Some 0x22
      else if e = 0x5C then Some 0x5C
      else if e = 0x2F then Some 0x2F
      else if e = 0x62 then Some 0x08
      else if e = 0x66 then Some 0x0C
      else if e = 0x6E then Some 0x0A
      else if e = 0x72 then Some 0x0D
      else if e = 0x74 then Some 0x09
      else None)"

text \<open>
  The character denoted by the escape that follows a backslash, and the number of
  characters of the escape after the backslash.
\<close>

definition parse_escape :: "ustr \<Rightarrow> (nat \<times> nat) option" where
  "parse_escape s =
     (case s of
        [] \<Rightarrow> None
      | e # r \<Rightarrow>
          if e = 0x75 then
            (case parse_hex4 r of
               None \<Rightarrow> None
             | Some u \<Rightarrow>
                 if 0xD800 \<le> u \<and> u \<le> 0xDBFF \<and> take 2 (drop 4 r) = [0x5C, 0x75] then
                   (case parse_hex4 (drop 6 r) of
                      None \<Rightarrow> None
                    | Some u2 \<Rightarrow>
                        if 0xDC00 \<le> u2 \<and> u2 \<le> 0xDFFF then
                          Some (0x10000 + (u - 0xD800) * 1024 + (u2 - 0xDC00), 11)
                        else Some (u, 5))
                 else Some (u, 5))
          else (case unescape e of None \<Rightarrow> None | Some c \<Rightarrow> Some (c, 1)))"

text \<open>The characters of a string up to its closing quote, and the text after it.\<close>

fun parse_chars :: "ustr \<Rightarrow> (ustr \<times> ustr) option" where
  "parse_chars [] = None"
| "parse_chars (c # cs) =
     (if c = 0x22 then Some ([], cs)
      else if c = 0x5C then
        (case parse_escape cs of
           None \<Rightarrow> None
         | Some (ch, n) \<Rightarrow>
             (case parse_chars (drop n cs) of
                None \<Rightarrow> None
              | Some (s, r) \<Rightarrow> Some (ch # s, r)))
      else if c < 0x20 then None
      else (case parse_chars cs of None \<Rightarrow> None | Some (s, r) \<Rightarrow> Some (c # s, r)))"

fun parse_digits :: "ustr \<Rightarrow> nat \<Rightarrow> nat \<times> ustr" where
  "parse_digits [] acc = (acc, [])"
| "parse_digits (c # cs) acc =
     (if is_digit c then parse_digits cs (acc * 10 + (c - 0x30)) else (acc, c # cs))"

text \<open>An integer without leading zeros; a fraction or an exponent is not read.\<close>

definition parse_nat :: "ustr \<Rightarrow> (nat \<times> ustr) option" where
  "parse_nat s =
     (case s of
        [] \<Rightarrow> None
      | c # cs \<Rightarrow>
          if \<not> is_digit c then None
          else if c = 0x30 \<and> cs \<noteq> [] \<and> is_digit (hd cs) then None
          else
            (case parse_digits (c # cs) 0 of
               (n, r) \<Rightarrow>
                 if r \<noteq> [] \<and> (hd r = 0x2E \<or> hd r = 0x65 \<or> hd r = 0x45) then None
                 else Some (n, r)))"

definition parse_number :: "ustr \<Rightarrow> (int \<times> ustr) option" where
  "parse_number s =
     (case s of
        [] \<Rightarrow> None
      | c # cs \<Rightarrow>
          if c = 0x2D then
            (case parse_nat cs of None \<Rightarrow> None | Some (n, r) \<Rightarrow> Some (- int n, r))
          else (case parse_nat s of None \<Rightarrow> None | Some (n, r) \<Rightarrow> Some (int n, r)))"

fun parse_value :: "nat \<Rightarrow> ustr \<Rightarrow> (json \<times> ustr) option"
  and parse_elements :: "nat \<Rightarrow> ustr \<Rightarrow> (json list \<times> ustr) option"
  and parse_members :: "nat \<Rightarrow> ustr \<Rightarrow> ((ustr \<times> json) list \<times> ustr) option"
where
  "parse_value 0 s = None"
| "parse_value (Suc n) s =
     (case skip_ws s of
        [] \<Rightarrow> None
      | c # r \<Rightarrow>
          if c = 0x22 then
            (case parse_chars r of None \<Rightarrow> None | Some (t, r') \<Rightarrow> Some (JString t, r'))
          else if c = 0x5B then
            (if take 1 (skip_ws r) = [0x5D] then Some (JArray [], drop 1 (skip_ws r))
             else (case parse_elements n r of
                     None \<Rightarrow> None
                   | Some (vs, r') \<Rightarrow> Some (JArray vs, r')))
          else if c = 0x7B then
            (if take 1 (skip_ws r) = [0x7D] then Some (JObject [], drop 1 (skip_ws r))
             else (case parse_members n r of
                     None \<Rightarrow> None
                   | Some (kvs, r') \<Rightarrow> Some (JObject kvs, r')))
          else if take 4 (c # r) = lit ''null'' then Some (JNull, drop 3 r)
          else if take 4 (c # r) = lit ''true'' then Some (JBool True, drop 3 r)
          else if take 5 (c # r) = lit ''false'' then Some (JBool False, drop 4 r)
          else (case parse_number (c # r) of
                  None \<Rightarrow> None
                | Some (i, r') \<Rightarrow> Some (JNumber i, r')))"
| "parse_elements 0 s = None"
| "parse_elements (Suc n) s =
     (case parse_value n s of
        None \<Rightarrow> None
      | Some (v, r) \<Rightarrow>
          (case skip_ws r of
             [] \<Rightarrow> None
           | c # r' \<Rightarrow>
               if c = 0x2C then
                 (case parse_elements n r' of
                    None \<Rightarrow> None
                  | Some (vs, r'') \<Rightarrow> Some (v # vs, r''))
               else if c = 0x5D then Some ([v], r')
               else None))"
| "parse_members 0 s = None"
| "parse_members (Suc n) s =
     (case skip_ws s of
        [] \<Rightarrow> None
      | q # r \<Rightarrow>
          if q \<noteq> 0x22 then None
          else
            (case parse_chars r of
               None \<Rightarrow> None
             | Some (k, r1) \<Rightarrow>
                 (case skip_ws r1 of
                    [] \<Rightarrow> None
                  | c # r2 \<Rightarrow>
                      if c \<noteq> 0x3A then None
                      else
                        (case parse_value n r2 of
                           None \<Rightarrow> None
                         | Some (v, r3) \<Rightarrow>
                             (case skip_ws r3 of
                                [] \<Rightarrow> None
                              | d # r4 \<Rightarrow>
                                  if d = 0x2C then
                                    (case parse_members n r4 of
                                       None \<Rightarrow> None
                                     | Some (kvs, r5) \<Rightarrow> Some ((k, v) # kvs, r5))
                                  else if d = 0x7D then Some ([(k, v)], r4)
                                  else None)))))"




text \<open>
  Text made of Unicode scalar values: code points up to U+10FFFF that are not
  surrogates.  Decoding bytes, as Latin-1 and as UTF-8, yields such text only.
\<close>

definition unicode_scalar :: "nat \<Rightarrow> bool" where
  "unicode_scalar c = (c < 0xD800 \<or> (0xE000 \<le> c \<and> c < 0x110000))"

definition unicode_text :: "ustr \<Rightarrow> bool" where
  "unicode_text s = list_all unicode_scalar s"




definition ends_value :: "ustr \<Rightarrow> bool" where
  "ends_value r = (r = [] \<or> hd r = 0x2C \<or> hd r = 0x5D \<or> hd r = 0x7D)"

definition starts_value :: "ustr \<Rightarrow> bool" where
  "starts_value t =
     (t \<noteq> [] \<and> (hd t = 0x22 \<or> hd t = 0x5B \<or> hd t = 0x7B \<or> hd t = 0x6E \<or> hd t = 0x74
        \<or> hd t = 0x66 \<or> hd t = 0x2D \<or> is_digit (hd t)))"

section \<open>A library instance for running the model\<close>

text \<open>
  The scenario of the specification: a table with the columns \<open>file_name\<close> and \<open>label\<close>
  and two rows.  The instance below returns it from every reader, lower-cases ASCII
  letters, renders one list, and answers every URL with status 404.
\<close>

definition example_table :: dataframe where
  "example_table =
     \<lparr>columns = [lit ''file_name'', lit ''label''],
      rows = [[PStr (lit ''a.png''), PStr (lit ''cat'')],
              [PStr (lit ''b.png''), PStr (lit ''dog'')]]\<rparr>"

definition ascii_lower :: "nat \<Rightarrow> nat" where
  "ascii_lower c = (if 0x41 \<le> c \<and> c \<le> 0x5A then c + 0x20 else c)"

definition example_lib :: lib where
  "example_lib =
     \<lparr>py_str = (\<lambda>v. if v = PList [PInt 1, PInt 2] then lit ''[1, 2]'' else []),
      py_lower = map ascii_lower,
      read_csv = (\<lambda>bs. Inr example_table),
      read_csv_latin1 = (\<lambda>bs. Inr example_table),
      read_parquet = (\<lambda>bs. Inr example_table),
      to_parquet = (\<lambda>df. Wrote [0x50, 0x41, 0x52, 0x31]),
      to_csv = (\<lambda>df. Wrote []),
      df_preview = (\<lambda>df. []),
      requests_get = (\<lambda>url. Inr \<lparr>status_code = 404, content = []\<rparr>),
      ws_append = (\<lambda>r. None),
      wb_save = (\<lambda>rs. Wrote [0x50, 0x4B])\<rparr>"

text \<open>
  A table as \<open>pandas\<close> returns it for a Parquet column of maps with binary keys and
  values: each cell is a list of key-value tuples.
\<close>

definition map_table :: dataframe where
  "map_table =
     \<lparr>columns = [lit ''a''],
      rows = [[PList []], [PList [PTuple [PBytes [0x6B], PBytes [0x76]]]]]\<rparr>"

definition empty_world :: world where
  "empty_world = \<lparr>files = Map.empty, http_log = []\<rparr>"






section \<open>Properties of the sanitizer\<close>

lemma strip_illegal_idem: "strip_illegal (strip_illegal s) = strip_illegal s"
  by (simp add: strip_illegal_def)






lemmas utf8_step_defs =
  utf8_step_def seq2_def seq3_def seq4_def is_cont_def second3_ok_def second4_ok_def
  cp2_def cp3_def cp4_def



text \<open>
  Claim C6.  Applying \<open>sanitize_value\<close> twice gives the same result as applying it
  once, for every value.
\<close>

theorem sanitize_value_idempotent:
  "sanitize_value L (sanitize_value L v) = sanitize_value L v"
  by (cases v) (simp_all add: strip_illegal_idem)

theorem sanitize_value_idempotent_witness:
  "sanitize_value example_lib (sanitize_value example_lib (PBytes [0x61, 0x00, 0xFF]))
     = PStr [0x61, 0xFFFD]"
proof -
  have "sanitize_value example_lib (PBytes [0x61, 0x00, 0xFF]) = PStr [0x61, 0xFFFD]"
    by (simp add: utf8_step_defs strip_illegal_def illegal_char_def)
  then show ?thesis
    using sanitize_value_idempotent [of example_lib "PBytes [0x61, 0x00, 0xFF]"] by simp
qed

text \<open>
  Claim C7, as amended.  For every list and every dictionary, \<open>sanitize_value\<close> returns
  the textual representation \<open>str(val)\<close> with the characters in 0x00-0x08, 0x0B-0x0C,
  0x0E-0x1F removed, which is a string.  The \<open>isinstance\<close> test names \<open>dict\<close> and \<open>list\<close>
  only: a sequence of another type, such as a tuple, is returned as it is.
\<close>

theorem sanitize_value_list_dict:
  "v = PList xs \<or> v = PDict d \<Longrightarrow> sanitize_value L v = PStr (strip_illegal (py_str L v))"
  by auto

theorem sanitize_value_list_dict_witness:
  "sanitize_value example_lib (PList [PInt 1, PInt 2]) = PStr (lit ''[1, 2]'')"
  using sanitize_value_list_dict [of "PList [PInt 1, PInt 2]" "[PInt 1, PInt 2]" "[]" example_lib]
  by (simp add: example_lib_def strip_illegal_def illegal_char_def lit_def)

theorem sanitize_value_tuple_counterexample:
  "sanitize_value example_lib (PTuple [PInt 1, PInt 2]) = PTuple [PInt 1, PInt 2] \<and>
   sanitize_value example_lib (PTuple [PInt 1, PInt 2])
     \<noteq> PStr (strip_illegal (py_str example_lib (PTuple [PInt 1, PInt 2])))"
  by simp

section \<open>Basic facts\<close>

lemma lit_eq_iff [simp]: "lit a = lit b \<longleftrightarrow> a = b"
proof -
  have "inj (of_char :: char \<Rightarrow> nat)"
    by (rule inj_on_inverseI [where g = char_of]) simp
  then show ?thesis by (simp add: lit_def inj_map_eq_map)
qed








lemmas example_defs =
  example_lib_def example_table_def map_table_def empty_world_def ascii_lower_def lit_def



section \<open>The input resolver and the dispatch\<close>

text \<open>
  Claim C2, as amended.  For every request whose input file, if one is given by path,
  exists, and whose conversion type is none of the five labels, the conversion fails
  with a \<open>ValueError\<close> whose message is \<open>Invalid conversion type selected.\<close> followed by
  a space and the warning sign U+26A0 U+FE0F; no routine runs: the files and the log of
  HTTP requests are unchanged.  The input file is read before the conversion type is
  examined, so a path that cannot be opened fails with the error of \<open>open\<close> instead.
\<close>

theorem invalid_conversion_type:
  assumes "conversion_type \<noteq> lit ''CSV to Parquet''"
    and "conversion_type \<noteq> lit ''Parquet to CSV''"
    and "conversion_type \<noteq> lit ''CSV to JSONL''"
    and "conversion_type \<noteq> lit ''Parquet to JSONL''"
    and "conversion_type \<noteq> lit ''Parquet to XLS''"
    and "\<And>p. input_file = Some (FilePath p) \<Longrightarrow> files w p \<noteq> None"
  shows "dataset_converter L w input_file conversion_type parquet_url
           = (Inl (ValueError (lit ''Invalid conversion type selected. '' @ [0x26A0, 0xFE0F])), w)"
  using assms
  by (auto simp: dataset_converter_def read_input_def split: option.splits input_file.splits)

theorem invalid_conversion_type_witness:
  "dataset_converter example_lib empty_world (Some (FileObj (lit ''a.csv'') [])) (lit ''CSV to XLS'')
     None
     = (Inl (ValueError (lit ''Invalid conversion type selected. '' @ [0x26A0, 0xFE0F])),
        empty_world)"
  using invalid_conversion_type
    [of "lit ''CSV to XLS''" "Some (FileObj (lit ''a.csv'') [])" empty_world example_lib None]
  by simp

theorem invalid_conversion_type_counterexample:
  "dataset_converter example_lib empty_world (Some (FilePath (lit ''missing.csv'')))
     (lit ''CSV to XLS'') None
     = (Inl (FileNotFoundError (lit ''missing.csv'')), empty_world) \<and>
   dataset_converter example_lib empty_world None (lit ''CSV to XLS'') None
     \<noteq> (Inl (ValueError (lit ''Invalid conversion type selected.'')), empty_world)"
  by (simp add: dataset_converter_def read_input_def empty_world_def lit_def)




section \<open>The output of \<open>json.dumps\<close> with \<open>ensure_ascii\<close>\<close>











section \<open>Files written and files left alone\<close>

lemma finish_write_out:
  "finish_write L w out res fn fmt df = (r, w') \<Longrightarrow>
     (\<forall>o1 m. r = Inr (o1, m) \<longrightarrow> o1 = out) \<and> (\<forall>n. n \<noteq> out \<longrightarrow> files w' n = files w n)
     \<and> http_log w' = http_log w"
  by (auto simp: finish_write_def leave_file_def put_file_def split: write_result.splits option.splits)

lemma finish_lines_out:
  "finish_lines L w out res fn df = (r, w') \<Longrightarrow>
     (\<forall>o1 m. r = Inr (o1, m) \<longrightarrow> o1 = out) \<and> (\<forall>n. n \<noteq> out \<longrightarrow> files w' n = files w n)
     \<and> http_log w' = http_log w"
  by (auto simp: finish_lines_def put_file_def split: prod.splits option.splits)

lemma parquet_source_files:
  "parquet_source L w src url msg = (r, w1) \<Longrightarrow> files w1 = files w"
  by (auto simp: parquet_source_def split: option.splits prod.splits sum.splits if_splits)

lemma csv_to_parquet_out:
  "csv_to_parquet L w src = (r, w') \<Longrightarrow>
     (\<forall>o1 m. r = Inr (o1, m) \<longrightarrow> o1 = lit ''output.parquet'') \<and>
     (\<forall>n. n \<noteq> lit ''output.parquet'' \<longrightarrow> files w' n = files w n)"
  unfolding csv_to_parquet_def
  by (auto split: option.splits prod.splits sum.splits if_splits dest!: finish_write_out)

lemma parquet_to_csv_out:
  "parquet_to_csv L w src = (r, w') \<Longrightarrow>
     (\<forall>o1 m. r = Inr (o1, m) \<longrightarrow> o1 = lit ''output.csv'') \<and>
     (\<forall>n. n \<noteq> lit ''output.csv'' \<longrightarrow> files w' n = files w n)"
  unfolding parquet_to_csv_def
  by (auto split: option.splits prod.splits sum.splits if_splits dest!: finish_write_out)

lemma csv_to_jsonl_out:
  "csv_to_jsonl L w src = (r, w') \<Longrightarrow>
     (\<forall>o1 m. r = Inr (o1, m) \<longrightarrow> o1 = lit ''metadata.jsonl'') \<and>
     (\<forall>n. n \<noteq> lit ''metadata.jsonl'' \<longrightarrow> files w' n = files w n)"
  unfolding csv_to_jsonl_def
  by (auto split: option.splits prod.splits sum.splits if_splits dest!: finish_lines_out)

lemma parquet_to_jsonl_out:
  "parquet_to_jsonl L w src url = (r, w') \<Longrightarrow>
     (\<forall>o1 m. r = Inr (o1, m) \<longrightarrow> o1 = lit ''output.jsonl'') \<and>
     (\<forall>n. n \<noteq> lit ''output.jsonl'' \<longrightarrow> files w' n = files w n)"
  unfolding parquet_to_jsonl_def
  by (auto split: option.splits prod.splits sum.splits if_splits
           dest!: finish_lines_out parquet_source_files)

lemma parquet_to_xls_out:
  "parquet_to_xls L w src url = (r, w') \<Longrightarrow>
     (\<forall>o1 m. r = Inr (o1, m) \<longrightarrow> o1 = lit ''output.xlsx'') \<and>
     (\<forall>n. n \<noteq> lit ''output.xlsx'' \<longrightarrow> files w' n = files w n)"
  unfolding parquet_to_xls_def
  by (auto split: option.splits prod.splits sum.splits if_splits
           dest!: finish_write_out parquet_source_files)

lemma dataset_converter_out:
  assumes "dataset_converter L w inp ct url = (r, w')"
  shows "(\<forall>o1 m. r = Inr (o1, m) \<longrightarrow> spec_output_file ct = Some o1) \<and>
         (\<forall>n. spec_output_file ct \<noteq> Some n \<longrightarrow> files w' n = files w n)"
proof (cases "read_input L w inp")
  case (Inl e)
  then show ?thesis using assms by (auto simp: dataset_converter_def)
next
  case (Inr src)
  then show ?thesis
    using assms
    by (auto simp: dataset_converter_def spec_output_file_def split: if_splits
        dest!: csv_to_parquet_out parquet_to_csv_out csv_to_jsonl_out parquet_to_jsonl_out
               parquet_to_xls_out)
qed











section \<open>The source of the two Parquet conversions\<close>



section \<open>Dispatch\<close>

text \<open>
  Claim C9.  Two requests with the same conversion type, whatever their libraries,
  files, file names, bytes and URLs, produce the same output file name when both
  succeed, the one that the specification fixes for the type; and neither request,
  successful or not, changes a file other than that one.  The routine that runs is
  thus determined by the conversion type; the extension can only make a request fail.
\<close>

theorem dispatch_by_conversion_type:
  assumes "dataset_converter L1 w1 in1 conversion_type url1 = (r1, w1')"
    and "dataset_converter L2 w2 in2 conversion_type url2 = (r2, w2')"
  shows "(\<forall>out1 msg1 out2 msg2.
            r1 = Inr (out1, msg1) \<and> r2 = Inr (out2, msg2) \<longrightarrow>
            out1 = out2 \<and> spec_output_file conversion_type = Some out1) \<and>
         (\<forall>n. spec_output_file conversion_type \<noteq> Some n \<longrightarrow>
            files w1' n = files w1 n \<and> files w2' n = files w2 n)"
  using dataset_converter_out [OF assms(1)] dataset_converter_out [OF assms(2)]
  by auto

theorem dispatch_by_conversion_type_witness:
  "fst (dataset_converter example_lib empty_world (Some (FileObj (lit ''a.csv'') [0x31]))
          (lit ''CSV to Parquet'') None)
     = Inr (lit ''output.parquet'',
            info_message example_lib (Some (lit ''a.csv'')) (lit ''Parquet'') example_table) \<and>
   fst (dataset_converter example_lib empty_world (Some (FileObj (lit ''B.CSV'') [0x32, 0x33]))
          (lit ''CSV to Parquet'') (Some (lit ''http://h/u.parquet'')))
     = Inr (lit ''output.parquet'',
            info_message example_lib (Some (lit ''B.CSV'')) (lit ''Parquet'') example_table) \<and>
   spec_output_file (lit ''CSV to Parquet'') = Some (lit ''output.parquet'')"
proof -
  have e: "file_extension example_lib (lit ''a.csv'') = lit ''csv''"
      "file_extension example_lib (lit ''B.CSV'') = lit ''csv''"
    by (simp_all add: file_extension_def example_defs)
  have r: "read_csv example_lib bs = Inr example_table"
      "to_parquet example_lib example_table = Wrote [0x50, 0x41, 0x52, 0x31]" for bs
    by (simp_all add: example_lib_def)
  have r1: "dataset_converter example_lib empty_world (Some (FileObj (lit ''a.csv'') [0x31]))
          (lit ''CSV to Parquet'') None
     = (Inr (lit ''output.parquet'',
            info_message example_lib (Some (lit ''a.csv'')) (lit ''Parquet'') example_table),
        put_file empty_world (lit ''output.parquet'') [0x50, 0x41, 0x52, 0x31])"
    using e r by (simp add: dataset_converter_def read_input_def csv_to_parquet_def finish_write_def)
  have r2: "dataset_converter example_lib empty_world (Some (FileObj (lit ''B.CSV'') [0x32, 0x33]))
          (lit ''CSV to Parquet'') (Some (lit ''http://h/u.parquet''))
     = (Inr (lit ''output.parquet'',
            info_message example_lib (Some (lit ''B.CSV'')) (lit ''Parquet'') example_table),
        put_file empty_world (lit ''output.parquet'') [0x50, 0x41, 0x52, 0x31])"
    using e r by (simp add: dataset_converter_def read_input_def csv_to_parquet_def finish_write_def)
  show ?thesis
    using r1 r2 dispatch_by_conversion_type [OF r1 r2] by simp
qed

section \<open>Failures and the output file\<close>




section \<open>The output of \<open>json.dumps\<close> without \<open>ensure_ascii\<close>\<close>









section \<open>The lines written\<close>








section \<open>ASCII escaping in the two JSONL conversions\<close>



section \<open>Reading back what \<open>json.dumps\<close> writes\<close>

lemma hexval_hexdigit: "d < 16 \<Longrightarrow> hexval (hexdigit d) = Some d"
  by (auto simp: hexval_def hexdigit_def)

lemma nibbles_sum:
  fixes n p q x y z w :: nat
  shows "n = p * 16 + w \<Longrightarrow> p = q * 16 + z \<Longrightarrow> q = x * 16 + y \<Longrightarrow>
         x * 4096 + y * 256 + z * 16 + w = n"
  by simp

lemma nibbles:
  fixes n :: nat
  shows "n div 4096 * 4096 + n div 256 mod 16 * 256 + n div 16 mod 16 * 16 + n mod 16 = n"
proof -
  have a: "n = n div 16 * 16 + n mod 16" by simp
  have "n div 16 div 16 = n div 256" by (simp add: div_mult2_eq)
  then have b: "n div 16 = n div 256 * 16 + n div 16 mod 16"
    using div_mult_mod_eq [of "n div 16" 16] by simp
  have "n div 256 div 16 = n div 4096" by (simp add: div_mult2_eq)
  then have c: "n div 256 = n div 4096 * 16 + n div 256 mod 16"
    using div_mult_mod_eq [of "n div 256" 16] by simp
  show ?thesis by (rule nibbles_sum [OF a b c])
qed

lemma parse_hex4_hex4: "n < 65536 \<Longrightarrow> parse_hex4 (hex4 n @ r) = Some n"
proof -
  assume n: "n < 65536"
  have top: "n div 4096 mod 16 = n div 4096" using n by simp
  have d: "hexval (hexdigit (n div 4096 mod 16)) = Some (n div 4096)"
      "hexval (hexdigit (n div 256 mod 16)) = Some (n div 256 mod 16)"
      "hexval (hexdigit (n div 16 mod 16)) = Some (n div 16 mod 16)"
      "hexval (hexdigit (n mod 16)) = Some (n mod 16)"
    using top by (simp_all add: hexval_hexdigit)
  show ?thesis
    unfolding parse_hex4_def hex4_def using d nibbles [of n] by simp
qed

lemma length_hex4 [simp]: "length (hex4 n) = 4"
  by (simp add: hex4_def)

lemma parse_escape_u:
  "n < 65536 \<Longrightarrow> \<not> (0xD800 \<le> n \<and> n \<le> 0xDBFF) \<Longrightarrow>
     parse_escape (0x75 # hex4 n @ r) = Some (n, 5)"
proof (cases "0xD800 \<le> n")
  case True
  assume "n < 65536" "\<not> (0xD800 \<le> n \<and> n \<le> 0xDBFF)"
  then show ?thesis using True unfolding parse_escape_def by (simp add: parse_hex4_hex4)
next
  case False
  assume "n < 65536"
  then show ?thesis using False unfolding parse_escape_def by (simp add: parse_hex4_hex4)
qed

lemma parse_escape_pair:
  assumes "0xD800 \<le> hi" "hi \<le> 0xDBFF" "0xDC00 \<le> lo" "lo \<le> 0xDFFF"
  shows "parse_escape (0x75 # hex4 hi @ [0x5C, 0x75] @ hex4 lo @ r)
           = Some (0x10000 + (hi - 0xD800) * 1024 + (lo - 0xDC00), 11)"
proof -
  have h: "parse_hex4 (hex4 hi @ [0x5C, 0x75] @ hex4 lo @ r) = Some hi"
    using assms by (intro parse_hex4_hex4) simp
  have l: "parse_hex4 (hex4 lo @ r) = Some lo"
    using assms by (intro parse_hex4_hex4) simp
  show ?thesis
    unfolding parse_escape_def using assms h l by simp
qed

lemma parse_chars_escape_char:
  assumes "unicode_scalar c" and "parse_chars T = Some (s, r)"
  shows "parse_chars (escape_char a c @ T) = Some (c # s, r)"
proof (cases "esc_short c")
  case (Some e)
  then show ?thesis
    using assms(2)
    by (auto simp: escape_char_def esc_short_def parse_escape_def unescape_def split: if_splits)
next
  case None
  then have nq: "c \<noteq> 0x22" "c \<noteq> 0x5C" by (auto simp: esc_short_def split: if_splits)
  consider (ctl) "c < 0x20" | (raw) "0x20 \<le> c" "\<not> a \<or> c \<le> 0x7E"
    | (bmp) "0x20 \<le> c" "a" "0x7E < c" "c < 0x10000" | (astral) "a" "0x10000 \<le> c"
    by linarith
  then show ?thesis
  proof cases
    case ctl
    then have "parse_escape (0x75 # hex4 c @ T) = Some (c, 5)"
      by (intro parse_escape_u) simp_all
    then show ?thesis using None ctl assms(2) by (simp add: escape_char_def u_escape_def)
  next
    case raw
    then have "escape_char a c = [c]" using None by (auto simp: escape_char_def)
    then show ?thesis using raw nq assms(2) by simp
  next
    case bmp
    then have "parse_escape (0x75 # hex4 c @ T) = Some (c, 5)"
      using assms(1) by (intro parse_escape_u) (auto simp: unicode_scalar_def)
    then show ?thesis using None bmp assms(2) by (simp add: escape_char_def u_escape_def)
  next
    case astral
    define m where "m = c - 0x10000"
    have m: "m < 1048576" "c = 0x10000 + m"
      using astral assms(1) by (auto simp: m_def unicode_scalar_def)
    define hi lo where "hi = 0xD800 + m div 1024 mod 1024" and "lo = 0xDC00 + m mod 1024"
    have b: "0xD800 \<le> hi" "hi \<le> 0xDBFF" "0xDC00 \<le> lo" "lo \<le> 0xDFFF"
      unfolding hi_def lo_def by simp_all
    have "m div 1024 mod 1024 = m div 1024" using m(1) by simp
    then have same: "0x10000 + (hi - 0xD800) * 1024 + (lo - 0xDC00) = c"
      unfolding hi_def lo_def using m(2) by simp
    have e: "escape_char a c = 0x5C # 0x75 # hex4 hi @ [0x5C, 0x75] @ hex4 lo"
      using None astral by (simp add: escape_char_def u_escape_def hi_def lo_def m_def)
    have "parse_escape (0x75 # hex4 hi @ [0x5C, 0x75] @ hex4 lo @ T) = Some (c, 11)"
      using parse_escape_pair [OF b, of T] same by simp
    then show ?thesis using e assms(2) by simp
  qed
qed

lemma parse_chars_body:
  "unicode_text s \<Longrightarrow>
     parse_chars (concat (map (escape_char a) s) @ 0x22 # r) = Some (s, r)"
proof (induction s)
  case Nil
  then show ?case by simp
next
  case (Cons c s)
  then have "unicode_scalar c" and "parse_chars (concat (map (escape_char a) s) @ 0x22 # r) = Some (s, r)"
    by (simp_all add: unicode_text_def)
  then show ?case
    using parse_chars_escape_char [of c "concat (map (escape_char a) s) @ 0x22 # r" s r a]
    by simp
qed

text \<open>A string is read back: the reader is at the character after the opening quote.\<close>

lemma parse_chars_encode:
  "unicode_text s \<Longrightarrow> encode_basestring a s @ r = 0x22 # T \<Longrightarrow> parse_chars T = Some (s, r)"
  using parse_chars_body [of s a r] by (simp add: encode_basestring_def)

subsection \<open>Numbers\<close>










subsection \<open>Values\<close>

lemma skip_ws_space [simp]: "skip_ws (0x20 # s) = skip_ws s"
  by (simp add: skip_ws_def is_ws_def)

lemma skip_ws_starts: "starts_value t \<Longrightarrow> skip_ws (t @ r) = t @ r"
  by (cases t) (auto simp: starts_value_def skip_ws_def is_ws_def is_digit_def)

lemma skip_ws_ends: "ends_value r \<Longrightarrow> skip_ws r = r"
  by (cases r) (auto simp: ends_value_def skip_ws_def is_ws_def)

lemma parse_value_space [simp]: "parse_value n (0x20 # s) = parse_value n s"
  by (cases n) simp_all

lemma parse_elements_space [simp]: "parse_elements n (0x20 # s) = parse_elements n s"
  by (cases n) simp_all

lemma parse_members_space [simp]: "parse_members n (0x20 # s) = parse_members n s"
  by (cases n) simp_all














subsection \<open>The bound of \<open>json_loads\<close>\<close>




section \<open>The lines of the CSV to JSONL conversion\<close>










end
